theory Spec2Isabelle
  imports Main "HOL-Library.Word"
begin

section \<open>Values, errors and outcomes\<close>

text \<open>
  The package \<open>queue\<close> (file \<open>utility.go\<close>) builds AMQP publishings and sets up
  queues. Go's \<open>int64\<close> is a 64-bit word read as two's complement. A \<open>[]byte\<close> is a
  list of bytes (the nil slice is the empty list): the package never writes into a
  slice, so sharing one cannot be observed.
\<close>

type_synonym int64 = "64 word"
type_synonym byte = "8 word"
type_synonym time = int

text \<open>
  An \<open>error\<close> value: \<open>errors.New msg\<close>, an error of \<open>json.Marshal\<close>, or an error
  returned by the broker client.
\<close>

datatype error = ErrorsNew string | MarshalError string | BrokerError string

text \<open>
  A call either returns or panics. A panic is not an error value: it unwinds the
  goroutine and, unrecovered, halts the process.
\<close>

datatype 'a outcome = Returned 'a | Panicked string

text \<open>
  The dynamically typed values (\<open>interface{}\<close>) a header table holds. The code
  distinguishes only \<open>int64\<close> from everything else, through the type assertion
  \<open>.(int64)\<close>.
\<close>

datatype hval =
    VNil
  | VBool bool
  | VInt32 "32 word"
  | VInt64 int64
  | VString string
  | VBytes "byte list"

section \<open>Header tables live in a store\<close>

text \<open>
  \<open>amqp.Table\<close> is \<open>map[string]interface{}\<close>. A Go map is a reference: copying the
  field \<open>Headers\<close> copies the reference, not the entries. A field of map type is
  therefore \<open>ref option\<close> (\<open>None\<close> is the nil map) and the entries live in a store.
\<close>

type_synonym Table = "string \<rightharpoonup> hval"
type_synonym ref = nat

record heap =
  cells :: "ref \<Rightarrow> Table"
  nxt :: ref

text \<open>The map literal \<open>map[string]interface{}{}\<close>: a new, empty table.\<close>

definition new_table :: "heap \<Rightarrow> ref \<times> heap" where
  "new_table h = (nxt h, h\<lparr>cells := (cells h)(nxt h := Map.empty), nxt := Suc (nxt h)\<rparr>)"

text \<open>The assignment \<open>m[k] = v\<close> through the reference \<open>r\<close>.\<close>

definition store_entry :: "ref \<Rightarrow> string \<Rightarrow> hval \<Rightarrow> heap \<Rightarrow> heap" where
  "store_entry r k v h = h\<lparr>cells := (cells h)(r := (cells h r)(k \<mapsto> v))\<rparr>"

text \<open>Reading \<open>m[k]\<close> through a possibly nil map: a nil map has no entries.\<close>

definition load_entry :: "ref option \<Rightarrow> string \<Rightarrow> heap \<Rightarrow> hval option" where
  "load_entry m k h = (case m of None \<Rightarrow> None | Some r \<Rightarrow> cells h r k)"

section \<open>Publishings and deliveries\<close>

text \<open>
  \<open>amqp.Publishing\<close>, and \<open>amqp.Delivery\<close>, which has every field of a publishing
  and the fields the broker adds on delivery (its \<open>Acknowledger\<close>, which this
  package never touches, is left out).
\<close>

record Publishing =
  Headers :: "ref option"
  ContentType :: string
  ContentEncoding :: string
  DeliveryMode :: byte
  Priority :: byte
  CorrelationId :: string
  ReplyTo :: string
  Expiration :: string
  MessageId :: string
  Timestamp :: time
  Type :: string
  UserId :: string
  AppId :: string
  Body :: "byte list"

record Delivery = Publishing +
  ConsumerTag :: string
  MessageCount :: "32 word"
  DeliveryTag :: "64 word"
  Redelivered :: bool
  DeliveryExchange :: string
  RoutingKey :: string

text \<open>The zero value \<open>amqp.Publishing{}\<close>.\<close>

definition empty_Publishing :: Publishing where
  "empty_Publishing =
     \<lparr>Headers = None, ContentType = [], ContentEncoding = [], DeliveryMode = 0,
      Priority = 0, CorrelationId = [], ReplyTo = [], Expiration = [], MessageId = [],
      Timestamp = 0, Type = [], UserId = [], AppId = [], Body = []\<rparr>"

definition RetryCountHeader :: string where
  "RetryCountHeader = ''retryCount''"

section \<open>The message functions\<close>

text \<open>
  \<open>json.Marshal\<close> belongs to the standard library; the functions take it as the
  parameter \<open>marshal\<close>, which returns the bytes or an error.
\<close>

definition CreateMessage ::
  "('b \<Rightarrow> error + byte list) \<Rightarrow> 'b \<Rightarrow> heap \<Rightarrow> (Publishing \<times> error option) \<times> heap" where
  "CreateMessage marshal body h =
     (case marshal body of
        Inl err \<Rightarrow> ((empty_Publishing, Some err), h)
      | Inr rawBody \<Rightarrow>
          (let (r, h1) = new_table h;
               h2 = store_entry r RetryCountHeader (VInt64 0) h1;
               pub = empty_Publishing\<lparr>Headers := Some r, Body := rawBody\<rparr>
           in ((pub, None), h2)))"

definition GetNextMessage ::
  "('b \<Rightarrow> error + byte list) \<Rightarrow> Delivery \<Rightarrow> 'b \<Rightarrow> heap \<Rightarrow> (Publishing \<times> error option) \<times> heap" where
  "GetNextMessage marshal msg body h =
     (case marshal body of
        Inl err \<Rightarrow> ((empty_Publishing, Some err), h)
      | Inr rawBody \<Rightarrow>
          (let pub = empty_Publishing
                 \<lparr>Headers := Headers msg,
                  ContentType := ContentType msg,
                  ContentEncoding := ContentEncoding msg,
                  DeliveryMode := DeliveryMode msg,
                  Type := Type msg,
                  Body := rawBody\<rparr>;
               (r, h1) = (case Headers pub of None \<Rightarrow> new_table h | Some r \<Rightarrow> (r, h));
               pub = pub\<lparr>Headers := Some r\<rparr>;
               h2 = store_entry r RetryCountHeader (VInt64 0) h1
           in ((pub, None), h2)))"

text \<open>
  The type assertion \<open>.(int64)\<close> on the entry under \<open>retryCount\<close>: it panics on
  any value that is not an \<open>int64\<close>, also on the nil interface a missing key reads as.
\<close>

definition GetKickbackMessage ::
  "int64 \<Rightarrow> Delivery \<Rightarrow> heap \<Rightarrow> (Publishing \<times> error option) outcome \<times> heap" where
  "GetKickbackMessage maxRetries msg h =
     (let pub = \<lparr>Headers = Headers msg,
                 ContentType = ContentType msg,
                 ContentEncoding = ContentEncoding msg,
                 DeliveryMode = DeliveryMode msg,
                 Priority = Priority msg,
                 CorrelationId = CorrelationId msg,
                 ReplyTo = ReplyTo msg,
                 Expiration = Expiration msg,
                 MessageId = MessageId msg,
                 Timestamp = Timestamp msg,
                 Type = Type msg,
                 UserId = [],
                 AppId = [],
                 Body = Body msg\<rparr>;
          (r, h1) = (case Headers pub of None \<Rightarrow> new_table h | Some r \<Rightarrow> (r, h));
          pub = pub\<lparr>Headers := Some r\<rparr>;
          exists = (cells h1 r RetryCountHeader \<noteq> None);
          h2 = (if \<not> exists then store_entry r RetryCountHeader (VInt64 0) h1 else h1)
      in case cells h2 r RetryCountHeader of
           Some (VInt64 c) \<Rightarrow>
             if maxRetries <s c
             then (Returned (empty_Publishing, Some (ErrorsNew ''too many retries'')), h2)
             else (Returned (pub, None), store_entry r RetryCountHeader (VInt64 (c + 1)) h2)
         | _ \<Rightarrow> (Panicked ''interface conversion: interface {} is not int64'', h2))"

text \<open>What a call shows to its caller: the error it returned, and the retry count of
  the envelope it returned (read through the envelope's header reference).\<close>

definition returned_error ::
  "(Publishing \<times> error option) outcome \<times> heap \<Rightarrow> error option outcome" where
  "returned_error res =
     (case fst res of Returned (pub, err) \<Rightarrow> Returned err | Panicked s \<Rightarrow> Panicked s)"

definition returned_retryCount ::
  "(Publishing \<times> error option) outcome \<times> heap \<Rightarrow> hval option" where
  "returned_retryCount res =
     (case fst res of
        Returned (pub, err) \<Rightarrow> load_entry (Headers pub) RetryCountHeader (snd res)
      | Panicked s \<Rightarrow> None)"

definition is_int64 :: "hval \<Rightarrow> bool" where
  "is_int64 v = (case v of VInt64 c \<Rightarrow> True | _ \<Rightarrow> False)"

text \<open>
  The retry count a delivery carries before the call: 0 when the \<open>retryCount\<close>
  header is absent, the stored number when it is an \<open>int64\<close>, and no count at all
  when the header holds anything else.
\<close>

definition currentRetryCount :: "Delivery \<Rightarrow> heap \<Rightarrow> int64 option" where
  "currentRetryCount msg h =
     (case load_entry (Headers msg) RetryCountHeader h of
        None \<Rightarrow> Some 0
      | Some (VInt64 c) \<Rightarrow> Some c
      | Some _ \<Rightarrow> None)"

subsection \<open>Calling GetKickbackMessage on its own output\<close>

text \<open>
  The returned publishing, handed back as the next delivery: the fields of the
  publishing, the same header reference, and zero values for what only the broker
  sets.
\<close>

definition asDelivery :: "Publishing \<Rightarrow> Delivery" where
  "asDelivery pub =
     \<lparr>Headers = Headers pub, ContentType = ContentType pub,
      ContentEncoding = ContentEncoding pub, DeliveryMode = DeliveryMode pub,
      Priority = Priority pub, CorrelationId = CorrelationId pub, ReplyTo = ReplyTo pub,
      Expiration = Expiration pub, MessageId = MessageId pub, Timestamp = Timestamp pub,
      Type = Type pub, UserId = UserId pub, AppId = AppId pub, Body = Body pub,
      ConsumerTag = [], MessageCount = 0, DeliveryTag = 0, Redelivered = False,
      DeliveryExchange = [], RoutingKey = []\<rparr>"

text \<open>
  \<open>kickback_after maxRetries k msg h\<close> is the call made after \<open>k\<close> calls that each
  returned an envelope, every call taking the envelope of the one before: call number
  \<open>k + 1\<close> of the chain. A call that returned no envelope ends the chain, and its
  result stays.
\<close>

fun kickback_after ::
  "int64 \<Rightarrow> nat \<Rightarrow> Delivery \<Rightarrow> heap \<Rightarrow> (Publishing \<times> error option) outcome \<times> heap" where
  "kickback_after maxRetries 0 msg h = GetKickbackMessage maxRetries msg h"
| "kickback_after maxRetries (Suc k) msg h =
     (case kickback_after maxRetries k msg h of
        (Returned (pub, None), h') \<Rightarrow> GetKickbackMessage maxRetries (asDelivery pub) h'
      | (Returned (pub, Some err), h') \<Rightarrow> (Returned (pub, Some err), h')
      | (Panicked s, h') \<Rightarrow> (Panicked s, h'))"

section \<open>Configurations and the uniqueness check\<close>

text \<open>
  \<open>config.Config\<close> with the fields this package reads: the queue name and the name
  of the exchange.
\<close>

record Exchange =
  Name :: string

record Config =
  QueueName :: string
  Exchange :: Exchange

text \<open>
  What the logger received: \<open>Errorf\<close> with its format and arguments, \<open>Panic\<close>, and
  \<open>Debug\<close> with the field \<open>err\<close>.
\<close>

datatype log_entry =
    LogErrorf string nat string
  | LogPanic string
  | LogDebug error string

text \<open>The inner loop: one \<open>Errorf\<close> for every configuration, in order.\<close>

definition log_confs :: "Config list \<Rightarrow> log_entry list" where
  "log_confs confs =
     map (\<lambda>j. LogErrorf ''%d = %s'' j (QueueName (confs ! j))) [0..<length confs]"

text \<open>
  The outer loop from index \<open>i\<close> on, with the map \<open>queues\<close> built so far;
  \<open>len(queues)\<close> is the number of keys.
\<close>

function AssertUniqueQueues_from ::
  "Config list \<Rightarrow> nat \<Rightarrow> (string \<rightharpoonup> bool) \<Rightarrow> log_entry list \<times> unit outcome" where
  "AssertUniqueQueues_from confs i queues =
     (if i < length confs then
        (let queues' = queues(QueueName (confs ! i) \<mapsto> False)
         in if int (card (dom queues')) - 1 \<noteq> int i
            then (log_confs confs @ [LogPanic ''queue names are not unique''],
                  Panicked ''queue names are not unique'')
            else AssertUniqueQueues_from confs (Suc i) queues')
      else ([], Returned ()))"
  by pat_completeness auto
termination
  by (relation "measure (\<lambda>(confs, i, queues). length confs - i)") auto

definition AssertUniqueQueues :: "Config list \<Rightarrow> log_entry list \<times> unit outcome" where
  "AssertUniqueQueues confs = AssertUniqueQueues_from confs 0 Map.empty"

section \<open>Binding queues to exchanges\<close>

text \<open>
  The broker is outside this package. A channel is given by what its calls return,
  a service by what its methods return; the calls made on the channel are recorded.
\<close>

record AMQPChannel =
  QueueBind :: "string \<Rightarrow> string \<Rightarrow> string \<Rightarrow> bool \<Rightarrow> ref option \<Rightarrow> error option"
  Close :: "error option"

record AMQPService =
  CreateQueue :: "error option"
  CreateExchange :: "error option"
  Channel :: "error + AMQPChannel"
  Config :: Config

datatype channel_call =
    CallQueueBind string string string bool "ref option"
  | CallClose

text \<open>
  The body of the goroutine \<open>BindQueuesToExchange\<close> starts for one service: the
  value it sends on \<open>errChan\<close> and the calls it made on the channel. The deferred
  \<open>ch.Close()\<close> runs last, and its result is dropped.
\<close>

definition bindTask :: "AMQPService \<Rightarrow> error option \<times> channel_call list" where
  "bindTask q =
     (case Channel q of
        Inl err \<Rightarrow> (Some err, [])
      | Inr ch \<Rightarrow>
          (let conf = Config q
           in if Name (Exchange conf) = []
              then (None, [CallClose])
              else (QueueBind ch (QueueName conf) (QueueName conf) (Name (Exchange conf)) False None,
                    [CallQueueBind (QueueName conf) (QueueName conf) (Name (Exchange conf)) False None,
                     CallClose])))"

text \<open>
  The receiving loop of \<open>BindQueuesToExchange\<close>, on the values in the order they
  arrived: every error that is not nil is logged, none is returned.
\<close>

fun log_errors :: "error option list \<Rightarrow> log_entry list" where
  "log_errors [] = []"
| "log_errors (None # errs) = log_errors errs"
| "log_errors (Some err # errs) =
     LogDebug err ''failed to create a queue or exchange'' # log_errors errs"

section \<open>Concrete inputs\<close>

text \<open>
  A store with three tables: one without a retry count, one with the count 3, one
  whose \<open>retryCount\<close> entry is a string.
\<close>

definition example_heap :: heap where
  "example_heap =
     \<lparr>cells = (\<lambda>r. Map.empty)
        (0 := [''trace'' \<mapsto> VString ''abc''],
         1 := [RetryCountHeader \<mapsto> VInt64 3],
         2 := [RetryCountHeader \<mapsto> VString ''3'']),
      nxt = 3\<rparr>"

text \<open>A delivery with the given headers and the body \<open>{}\<close>.\<close>

definition example_delivery :: "ref option \<Rightarrow> Delivery" where
  "example_delivery hdr =
     \<lparr>Headers = hdr, ContentType = ''application/json'', ContentEncoding = ''utf-8'',
      DeliveryMode = 2, Priority = 1, CorrelationId = ''c1'', ReplyTo = ''replies'',
      Expiration = ''60000'', MessageId = ''m1'', Timestamp = 1700000000, Type = ''job'',
      UserId = ''guest'', AppId = ''worker'', Body = [123, 125],
      ConsumerTag = ''ctag'', MessageCount = 0, DeliveryTag = 7, Redelivered = False,
      DeliveryExchange = ''jobs'', RoutingKey = ''jobs.q''\<rparr>"

definition example_confs :: "Config list" where
  "example_confs =
     [\<lparr>QueueName = ''a'', Exchange = \<lparr>Name = ''x''\<rparr>\<rparr>,
      \<lparr>QueueName = ''b'', Exchange = \<lparr>Name = []\<rparr>\<rparr>,
      \<lparr>QueueName = ''a'', Exchange = \<lparr>Name = ''y''\<rparr>\<rparr>]"


text \<open>
  Two bodies and a stand-in for \<open>json.Marshal\<close> on them: \<open>nil\<close> encodes as
  \<open>null\<close>, a channel cannot be encoded.
\<close>

datatype example_body = BodyNil | BodyChan

fun example_marshal :: "example_body \<Rightarrow> error + byte list" where
  "example_marshal BodyNil = Inr [110, 117, 108, 108]"
| "example_marshal BodyChan = Inl (MarshalError ''json: unsupported type: chan int'')"

text \<open>
  A service for the queue \<open>jobs\<close> with the given result of \<open>Channel()\<close> and the
  given exchange name, and a channel on which every call succeeds.
\<close>

definition example_channel :: AMQPChannel where
  "example_channel = \<lparr>QueueBind = (\<lambda>name key exchange noWait args. None), Close = None\<rparr>"

definition example_service :: "error + AMQPChannel \<Rightarrow> string \<Rightarrow> AMQPService" where
  "example_service ch exchangeName =
     \<lparr>CreateQueue = None, CreateExchange = None, Channel = ch,
      Config = \<lparr>QueueName = ''jobs'', Exchange = \<lparr>Name = exchangeName\<rparr>\<rparr>\<rparr>"

declare AssertUniqueQueues_from.simps [simp del]

section \<open>Signed 64-bit comparisons\<close>

lemma max_int64_top: "\<not> (9223372036854775807 :: int64) <s c"
proof -
  have "sint c < 2 ^ 63" using sint_lt [of c] by simp
  then show ?thesis by (simp add: word_sless_alt)
qed

lemma sint_of_nat_small:
  assumes "n < 2 ^ 63"
  shows "sint (of_nat n :: int64) = int n"
proof -
  have "sint (of_nat n :: int64) = signed_take_bit 63 (int n)"
    using sint_sbintrunc' [of "int n", where ?'a = 64] by simp
  moreover have "signed_take_bit 63 (int n) = int n"
    using assms by (intro signed_take_bit_int_eq_self) auto
  ultimately show ?thesis by simp
qed

lemma not_exhausted_upto:
  fixes mr :: int64
  assumes "int k \<le> sint mr"
  shows "\<not> mr <s of_nat k"
proof -
  have "sint mr < 2 ^ 63" using sint_lt [of mr] by simp
  with assms have "int k < 2 ^ 63" by linarith
  then have "k < 2 ^ 63" by simp
  then have "sint (of_nat k :: int64) = int k" by (rule sint_of_nat_small)
  with assms show ?thesis by (simp add: word_sless_alt)
qed

lemma exhausted_next:
  fixes mr :: int64
  assumes "0 \<le> sint mr" "sint mr < 2 ^ 63 - 1"
  shows "mr <s of_nat (nat (sint mr) + 1)"
proof -
  from assms have "int (nat (sint mr) + 1) < 2 ^ 63" by simp
  then have "nat (sint mr) + 1 < 2 ^ 63"
    by (simp only: of_nat_less_numeral_power_cancel_iff)
  then have "sint (of_nat (nat (sint mr) + 1) :: int64) = int (nat (sint mr) + 1)"
    by (rule sint_of_nat_small)
  with assms show ?thesis by (simp add: word_sless_alt)
qed

lemma max_int64_eq:
  fixes c :: int64
  assumes "sint c = 2 ^ 63 - 1"
  shows "c = 9223372036854775807"
proof -
  have "sint c = sint (9223372036854775807 :: int64)" using assms by simp
  then show ?thesis by (rule signed_word_eqI)
qed

text \<open>Adding 1 to an \<open>int64\<close> adds 1 to its signed value, except at the largest one.\<close>

lemma sint_succ_no_wrap:
  fixes c :: int64
  assumes "c \<noteq> 9223372036854775807"
  shows "sint (c + 1) = sint c + 1"
proof -
  have up: "sint c < 2 ^ 63" using sint_lt [of c] by simp
  have lo: "- (2 ^ 63) \<le> sint c" using sint_ge [of c] by simp
  have "sint c \<noteq> 2 ^ 63 - 1" using assms max_int64_eq by blast
  with up have lt: "sint c + 1 < 2 ^ 63" by linarith
  have "sint (c + 1) = signed_take_bit 63 (sint c + 1)"
    by (simp add: sint_word_ariths)
  also have "\<dots> = sint c + 1"
    using lo lt by (intro signed_take_bit_int_eq_self) linarith+
  finally show ?thesis .
qed

lemma not_below_max_int64:
  fixes mr :: int64
  assumes "\<not> mr <s 9223372036854775807"
  shows "mr = 9223372036854775807"
proof -
  have "sint mr < 2 ^ 63" using sint_lt [of mr] by simp
  moreover have "2 ^ 63 - 1 \<le> sint mr" using assms by (simp add: word_sless_alt)
  ultimately have "sint mr = 2 ^ 63 - 1" by linarith
  then show ?thesis by (rule max_int64_eq)
qed

section \<open>One call of GetKickbackMessage\<close>

text \<open>The call on a delivery whose table already holds an \<open>int64\<close> retry count.\<close>

lemma GetKickbackMessage_present:
  assumes "Headers msg = Some r" "cells h r RetryCountHeader = Some (VInt64 c)"
  shows "GetKickbackMessage mr msg h =
     (if mr <s c
      then (Returned (empty_Publishing, Some (ErrorsNew ''too many retries'')), h)
      else (Returned
              (\<lparr>Headers = Some r, ContentType = ContentType msg,
                ContentEncoding = ContentEncoding msg, DeliveryMode = DeliveryMode msg,
                Priority = Priority msg, CorrelationId = CorrelationId msg,
                ReplyTo = ReplyTo msg, Expiration = Expiration msg,
                MessageId = MessageId msg, Timestamp = Timestamp msg, Type = Type msg,
                UserId = [], AppId = [], Body = Body msg\<rparr>, None),
            store_entry r RetryCountHeader (VInt64 (c + 1)) h))"
  using assms by (simp add: GetKickbackMessage_def Let_def)

text \<open>The call on a delivery without a retry count, when 0 is within the budget.\<close>

lemma GetKickbackMessage_absent:
  assumes "load_entry (Headers msg) RetryCountHeader h = None" "\<not> mr <s 0"
  shows "\<exists>pub h' r. GetKickbackMessage mr msg h = (Returned (pub, None), h') \<and>
           Headers pub = Some r \<and> cells h' r RetryCountHeader = Some (VInt64 1)"
  using assms
  by (cases "Headers msg")
     (simp_all add: GetKickbackMessage_def Let_def load_entry_def new_table_def store_entry_def)

text \<open>
  Claim C1, as stated, fails at two deliveries. On the delivery whose \<open>retryCount\<close>
  header is the string \<open>3\<close> the call panics: it returns neither the error nor an
  envelope. On a delivery whose count is \<open>9223372036854775807\<close>, with the same
  number as \<open>maxRetries\<close>, the call returns an envelope whose count is
  \<open>-9223372036854775808\<close>, not the count plus one.
\<close>

theorem GetKickbackMessage_retry_accounting_counterexample:
  "load_entry (Headers (example_delivery (Some 2))) RetryCountHeader example_heap
     = Some (VString ''3'') \<and>
   GetKickbackMessage 5 (example_delivery (Some 2)) example_heap =
     (Panicked ''interface conversion: interface {} is not int64'', example_heap) \<and>
   load_entry (Headers (example_delivery (Some 1))) RetryCountHeader
     (store_entry 1 RetryCountHeader (VInt64 9223372036854775807) example_heap)
     = Some (VInt64 9223372036854775807) \<and>
   returned_error (GetKickbackMessage 9223372036854775807 (example_delivery (Some 1))
     (store_entry 1 RetryCountHeader (VInt64 9223372036854775807) example_heap))
     = Returned None \<and>
   returned_retryCount (GetKickbackMessage 9223372036854775807 (example_delivery (Some 1))
     (store_entry 1 RetryCountHeader (VInt64 9223372036854775807) example_heap))
     = Some (VInt64 (- 9223372036854775808))"
  by (simp add: GetKickbackMessage_def load_entry_def store_entry_def example_delivery_def
        example_heap_def returned_error_def returned_retryCount_def Let_def
        RetryCountHeader_def word_sless_alt)

text \<open>
  Claim C1, amended. Let the \<open>retryCount\<close> header of the delivery be absent or an
  \<open>int64\<close>, and let \<open>c\<close> be the retry count before the call, 0 when the header is
  absent. If \<open>c > maxRetries\<close> (signed), the call returns the zero publishing and the
  error \<open>too many retries\<close>. Otherwise it returns an envelope and no error, and the
  envelope's \<open>retryCount\<close> header is the \<open>int64\<close> sum \<open>c + 1\<close>: the count plus one
  whenever \<open>c\<close> is less than \<open>9223372036854775807\<close>, and \<open>-9223372036854775808\<close>
  when \<open>c\<close> is \<open>9223372036854775807\<close>, which passes the check only when
  \<open>maxRetries\<close> is that number too.
\<close>

theorem GetKickbackMessage_retry_accounting:
  assumes "currentRetryCount msg h = Some c"
  shows "(maxRetries <s c \<longrightarrow>
            fst (GetKickbackMessage maxRetries msg h) =
              Returned (empty_Publishing, Some (ErrorsNew ''too many retries''))) \<and>
         (\<not> maxRetries <s c \<longrightarrow>
            returned_error (GetKickbackMessage maxRetries msg h) = Returned None \<and>
            returned_retryCount (GetKickbackMessage maxRetries msg h) = Some (VInt64 (c + 1)) \<and>
            (c \<noteq> 9223372036854775807 \<longrightarrow> sint (c + 1) = sint c + 1) \<and>
            (c = 9223372036854775807 \<longrightarrow>
               maxRetries = 9223372036854775807 \<and> c + 1 = - 9223372036854775808))"
proof -
  have acc: "(maxRetries <s c \<longrightarrow>
            fst (GetKickbackMessage maxRetries msg h) =
              Returned (empty_Publishing, Some (ErrorsNew ''too many retries''))) \<and>
         (\<not> maxRetries <s c \<longrightarrow>
            returned_error (GetKickbackMessage maxRetries msg h) = Returned None \<and>
            returned_retryCount (GetKickbackMessage maxRetries msg h) = Some (VInt64 (c + 1)))"
    using assms
    by (auto simp: currentRetryCount_def GetKickbackMessage_def load_entry_def new_table_def
        store_entry_def returned_error_def returned_retryCount_def Let_def
        split: option.splits hval.splits)
  have wrap: "c = 9223372036854775807 \<longrightarrow> c + 1 = - 9223372036854775808" by simp
  have top: "\<not> maxRetries <s c \<longrightarrow> c = 9223372036854775807 \<longrightarrow>
               maxRetries = 9223372036854775807"
    using not_below_max_int64 by blast
  from acc wrap top sint_succ_no_wrap [of c] show ?thesis by blast
qed

text \<open>
  At the table with count 3: with \<open>maxRetries = 3\<close> the call returns an envelope
  with count 4, with \<open>maxRetries = 2\<close> it returns the error. At the count
  \<open>9223372036854775807\<close> the only budget that lets the call pass is that number.
\<close>

theorem GetKickbackMessage_retry_accounting_witness:
  "currentRetryCount (example_delivery (Some 1)) example_heap = Some 3 \<and>
   \<not> (3 :: int64) <s 3 \<and>
   returned_error (GetKickbackMessage 3 (example_delivery (Some 1)) example_heap) = Returned None \<and>
   returned_retryCount (GetKickbackMessage 3 (example_delivery (Some 1)) example_heap)
     = Some (VInt64 4) \<and>
   (3 :: int64) \<noteq> 9223372036854775807 \<and>
   sint ((3 :: int64) + 1) = sint (3 :: int64) + 1 \<and>
   (2 :: int64) <s 3 \<and>
   fst (GetKickbackMessage 2 (example_delivery (Some 1)) example_heap) =
     Returned (empty_Publishing, Some (ErrorsNew ''too many retries'')) \<and>
   currentRetryCount (example_delivery (Some 1))
     (store_entry 1 RetryCountHeader (VInt64 9223372036854775807) example_heap)
     = Some 9223372036854775807 \<and>
   \<not> (9223372036854775807 :: int64) <s 9223372036854775807 \<and>
   returned_retryCount (GetKickbackMessage 9223372036854775807 (example_delivery (Some 1))
     (store_entry 1 RetryCountHeader (VInt64 9223372036854775807) example_heap))
     = Some (VInt64 (- 9223372036854775808))"
proof -
  have c: "currentRetryCount (example_delivery (Some 1)) example_heap = Some 3"
    by (simp add: currentRetryCount_def load_entry_def example_delivery_def example_heap_def)
  have m: "currentRetryCount (example_delivery (Some 1))
     (store_entry 1 RetryCountHeader (VInt64 9223372036854775807) example_heap)
     = Some 9223372036854775807"
    by (simp add: currentRetryCount_def load_entry_def store_entry_def example_delivery_def)
  have le: "\<not> (3 :: int64) <s 3" by simp
  have gt: "(2 :: int64) <s 3" by (simp add: word_sless_alt)
  have ne: "(3 :: int64) \<noteq> 9223372036854775807" by simp
  have top: "\<not> (9223372036854775807 :: int64) <s 9223372036854775807" by simp
  from GetKickbackMessage_retry_accounting [OF c, of 3] le ne
  have a: "returned_error (GetKickbackMessage 3 (example_delivery (Some 1)) example_heap)
             = Returned None"
    "returned_retryCount (GetKickbackMessage 3 (example_delivery (Some 1)) example_heap)
       = Some (VInt64 4)"
    "sint ((3 :: int64) + 1) = sint (3 :: int64) + 1"
    by simp_all
  from GetKickbackMessage_retry_accounting [OF c, of 2] gt
  have b: "fst (GetKickbackMessage 2 (example_delivery (Some 1)) example_heap) =
     Returned (empty_Publishing, Some (ErrorsNew ''too many retries''))"
    by simp
  from GetKickbackMessage_retry_accounting [OF m, of 9223372036854775807] top
  have d: "returned_retryCount (GetKickbackMessage 9223372036854775807
     (example_delivery (Some 1))
     (store_entry 1 RetryCountHeader (VInt64 9223372036854775807) example_heap))
     = Some (VInt64 (- 9223372036854775808))"
    by simp
  from c m le gt ne top a b d show ?thesis by (simp only: simp_thms)
qed

text \<open>
  Claim C10. When the \<open>retryCount\<close> header is present and holds a value that is not
  an \<open>int64\<close>, the call panics in the type assertion: it returns neither an error
  nor an envelope, and it has written nothing. In every other case (the header absent
  or an \<open>int64\<close>) the call returns.
\<close>

theorem GetKickbackMessage_panics_on_non_int64:
  "((\<exists>v. load_entry (Headers msg) RetryCountHeader h = Some v \<and> \<not> is_int64 v) \<longrightarrow>
      GetKickbackMessage maxRetries msg h =
        (Panicked ''interface conversion: interface {} is not int64'', h)) \<and>
   (\<not> (\<exists>v. load_entry (Headers msg) RetryCountHeader h = Some v \<and> \<not> is_int64 v) \<longrightarrow>
      (\<exists>res. fst (GetKickbackMessage maxRetries msg h) = Returned res))"
  by (auto simp: is_int64_def GetKickbackMessage_def load_entry_def new_table_def
        store_entry_def Let_def split: option.splits hval.splits)

text \<open>
  At the table whose \<open>retryCount\<close> is the string \<open>3\<close> the call panics; at the
  table with the \<open>int64\<close> 3 it returns.
\<close>

theorem GetKickbackMessage_panics_on_non_int64_witness:
  "load_entry (Headers (example_delivery (Some 2))) RetryCountHeader example_heap
     = Some (VString ''3'') \<and>
   \<not> is_int64 (VString ''3'') \<and>
   GetKickbackMessage 5 (example_delivery (Some 2)) example_heap =
     (Panicked ''interface conversion: interface {} is not int64'', example_heap) \<and>
   load_entry (Headers (example_delivery (Some 1))) RetryCountHeader example_heap
     = Some (VInt64 3) \<and>
   is_int64 (VInt64 3) \<and>
   (\<exists>res. fst (GetKickbackMessage 5 (example_delivery (Some 1)) example_heap) = Returned res)"
proof -
  have s: "load_entry (Headers (example_delivery (Some 2))) RetryCountHeader example_heap
             = Some (VString ''3'')"
    by (simp add: load_entry_def example_delivery_def example_heap_def)
  have i: "load_entry (Headers (example_delivery (Some 1))) RetryCountHeader example_heap
             = Some (VInt64 3)"
    by (simp add: load_entry_def example_delivery_def example_heap_def)
  have ns: "\<not> is_int64 (VString ''3'')" and ni: "is_int64 (VInt64 3)"
    by (simp_all add: is_int64_def)
  from GetKickbackMessage_panics_on_non_int64 [of "example_delivery (Some 2)" example_heap 5]
       s ns
  have p: "GetKickbackMessage 5 (example_delivery (Some 2)) example_heap =
     (Panicked ''interface conversion: interface {} is not int64'', example_heap)"
    by blast
  from GetKickbackMessage_panics_on_non_int64 [of "example_delivery (Some 1)" example_heap 5]
       i ni
  have r: "\<exists>res. fst (GetKickbackMessage 5 (example_delivery (Some 1)) example_heap) = Returned res"
    by auto
  from s i ns ni p r show ?thesis by (simp only: simp_thms)
qed

section \<open>The chain of kickbacks\<close>

text \<open>
  As long as no count up to \<open>k\<close> exceeds the budget, the call made after \<open>k\<close>
  kickbacks returns an envelope, and the table of that envelope holds the count
  \<open>k + 1\<close>.
\<close>

lemma kickback_after_ok:
  assumes "load_entry (Headers msg) RetryCountHeader h = None"
      and "\<forall>j\<le>k. \<not> mr <s of_nat j"
  shows "\<exists>pub h' r. kickback_after mr k msg h = (Returned (pub, None), h') \<and>
           Headers pub = Some r \<and>
           cells h' r RetryCountHeader = Some (VInt64 (of_nat (Suc k)))"
  using assms(2)
proof (induction k)
  case 0
  then have "\<not> mr <s 0" by simp
  from GetKickbackMessage_absent [OF assms(1) this] show ?case by simp
next
  case (Suc k)
  then have "\<forall>j\<le>k. \<not> mr <s of_nat j" by simp
  from Suc.IH [OF this] obtain pub h' r where
    prev: "kickback_after mr k msg h = (Returned (pub, None), h')"
    and hd: "Headers pub = Some r"
    and cnt: "cells h' r RetryCountHeader = Some (VInt64 (of_nat (Suc k)))"
    by blast
  have hd': "Headers (asDelivery pub) = Some r"
    using hd by (simp add: asDelivery_def)
  have ok: "\<not> mr <s of_nat (Suc k)" using Suc.prems by blast
  have "of_nat (Suc k) + 1 = (of_nat (Suc (Suc k)) :: int64)" by simp
  with GetKickbackMessage_present [OF hd' cnt, of mr] ok prev show ?case
    by (simp add: store_entry_def)
qed

lemma kickback_after_exhausted:
  assumes "load_entry (Headers msg) RetryCountHeader h = None"
      and "\<forall>j\<le>k. \<not> mr <s of_nat j"
      and "mr <s of_nat (Suc k)"
  shows "fst (kickback_after mr (Suc k) msg h) =
           Returned (empty_Publishing, Some (ErrorsNew ''too many retries''))"
proof -
  from kickback_after_ok [OF assms(1,2)] obtain pub h' r where
    prev: "kickback_after mr k msg h = (Returned (pub, None), h')"
    and hd: "Headers pub = Some r"
    and cnt: "cells h' r RetryCountHeader = Some (VInt64 (of_nat (Suc k)))"
    by blast
  have hd': "Headers (asDelivery pub) = Some r"
    using hd by (simp add: asDelivery_def)
  from GetKickbackMessage_present [OF hd' cnt, of mr] assms(3) prev show ?thesis by simp
qed

text \<open>With the largest \<open>int64\<close> as budget no count exceeds it, and no call fails.\<close>

lemma kickback_after_max_int64:
  assumes "load_entry (Headers msg) RetryCountHeader h = None"
  shows "returned_error (kickback_after 9223372036854775807 k msg h) = Returned None \<and>
         returned_retryCount (kickback_after 9223372036854775807 k msg h)
           = Some (VInt64 (of_nat (Suc k)))"
proof -
  have "\<forall>j\<le>k. \<not> (9223372036854775807 :: int64) <s of_nat j"
    by (simp add: max_int64_top)
  from kickback_after_ok [OF assms this] show ?thesis
    by (auto simp: returned_error_def returned_retryCount_def load_entry_def)
qed

text \<open>
  Claim C2, as stated, at \<open>maxRetries = 9223372036854775807\<close>: call number
  \<open>maxRetries + 1\<close> returns the count \<open>-9223372036854775808\<close>, and the call after
  it, which the claim says fails, returns an envelope and no error.
\<close>

theorem kickback_chain_max_int64_counterexample:
  "returned_retryCount
     (kickback_after 9223372036854775807 9223372036854775807 (example_delivery None) example_heap)
   = Some (VInt64 (- 9223372036854775808)) \<and>
   returned_error
     (kickback_after 9223372036854775807 9223372036854775808 (example_delivery None) example_heap)
   = Returned None"
proof -
  have c: "load_entry (Headers (example_delivery None)) RetryCountHeader example_heap = None"
    by (simp add: load_entry_def example_delivery_def)
  have w: "(of_nat (Suc 9223372036854775807) :: int64) = - 9223372036854775808" by simp
  from kickback_after_max_int64 [OF c, of 9223372036854775807]
       kickback_after_max_int64 [OF c, of 9223372036854775808] w
  show ?thesis by (simp only: simp_thms)
qed

text \<open>
  Claim C2, amended. For \<open>0 \<le> maxRetries < 9223372036854775807\<close> and a delivery
  without a retry header: each of the first \<open>maxRetries + 1\<close> calls of the chain
  returns an envelope and no error, call number \<open>k + 1\<close> with the retry count
  \<open>k + 1\<close> (which is its value as a signed number too), and the call after them
  returns the zero publishing and the error \<open>too many retries\<close>.
\<close>

theorem kickback_chain_bounded:
  assumes "0 \<le>s maxRetries" and "maxRetries <s 9223372036854775807"
      and "load_entry (Headers msg) RetryCountHeader h = None"
  shows "(\<forall>k\<le>nat (sint maxRetries).
            returned_error (kickback_after maxRetries k msg h) = Returned None \<and>
            returned_retryCount (kickback_after maxRetries k msg h)
              = Some (VInt64 (of_nat (k + 1))) \<and>
            sint (of_nat (k + 1) :: int64) = int k + 1) \<and>
         fst (kickback_after maxRetries (nat (sint maxRetries) + 1) msg h) =
           Returned (empty_Publishing, Some (ErrorsNew ''too many retries''))"
proof -
  have lo: "0 \<le> sint maxRetries" using assms(1) by (simp add: word_sle_eq)
  have hi: "sint maxRetries < 2 ^ 63 - 1" using assms(2) by (simp add: word_sless_alt)
  have below: "\<not> maxRetries <s of_nat j" if "j \<le> nat (sint maxRetries)" for j
    using that lo by (intro not_exhausted_upto) linarith
  have part1: "returned_error (kickback_after maxRetries k msg h) = Returned None \<and>
            returned_retryCount (kickback_after maxRetries k msg h)
              = Some (VInt64 (of_nat (k + 1))) \<and>
            sint (of_nat (k + 1) :: int64) = int k + 1" if "k \<le> nat (sint maxRetries)" for k
  proof -
    have "\<forall>j\<le>k. \<not> maxRetries <s of_nat j" using below that by auto
    from kickback_after_ok [OF assms(3) this] obtain pub h' r where
      "kickback_after maxRetries k msg h = (Returned (pub, None), h')"
      "Headers pub = Some r"
      "cells h' r RetryCountHeader = Some (VInt64 (of_nat (Suc k)))"
      by blast
    moreover have "int (k + 1) < 2 ^ 63" using that hi lo by linarith
    then have "k + 1 < 2 ^ 63" by (simp only: of_nat_less_numeral_power_cancel_iff)
    then have "sint (of_nat (k + 1) :: int64) = int k + 1"
      using sint_of_nat_small [of "k + 1"] by simp
    ultimately show ?thesis
      by (simp add: returned_error_def returned_retryCount_def load_entry_def)
  qed
  have "\<forall>j\<le>nat (sint maxRetries). \<not> maxRetries <s of_nat j" using below by blast
  moreover have "maxRetries <s of_nat (Suc (nat (sint maxRetries)))"
    using exhausted_next [OF lo hi] by simp
  ultimately have "fst (kickback_after maxRetries (Suc (nat (sint maxRetries))) msg h) =
           Returned (empty_Publishing, Some (ErrorsNew ''too many retries''))"
    by (rule kickback_after_exhausted [OF assms(3)])
  with part1 show ?thesis by simp
qed

text \<open>
  The scenario of the specification, \<open>maxRetries = 2\<close>: calls 1 to 3 return the
  counts 1, 2, 3 and call 4 fails.
\<close>

theorem kickback_chain_bounded_witness:
  "0 \<le>s (2 :: int64) \<and> (2 :: int64) <s 9223372036854775807 \<and>
   load_entry (Headers (example_delivery None)) RetryCountHeader example_heap = None \<and>
   returned_retryCount (kickback_after 2 0 (example_delivery None) example_heap)
     = Some (VInt64 1) \<and>
   returned_retryCount (kickback_after 2 1 (example_delivery None) example_heap)
     = Some (VInt64 2) \<and>
   returned_retryCount (kickback_after 2 2 (example_delivery None) example_heap)
     = Some (VInt64 3) \<and>
   returned_error (kickback_after 2 2 (example_delivery None) example_heap) = Returned None \<and>
   fst (kickback_after 2 3 (example_delivery None) example_heap) =
     Returned (empty_Publishing, Some (ErrorsNew ''too many retries''))"
proof -
  have a: "0 \<le>s (2 :: int64)" by (simp add: word_sle_eq)
  have b: "(2 :: int64) <s 9223372036854775807" by (simp add: word_sless_alt)
  have c: "load_entry (Headers (example_delivery None)) RetryCountHeader example_heap = None"
    by (simp add: load_entry_def example_delivery_def)
  have n: "nat (sint (2 :: int64)) = 2" by simp
  note T = kickback_chain_bounded [OF a b c, unfolded n]
  from T have k0:
    "returned_retryCount (kickback_after 2 0 (example_delivery None) example_heap)
       = Some (VInt64 1)"
    by (elim conjE allE [of _ 0]) simp
  from T have k1:
    "returned_retryCount (kickback_after 2 1 (example_delivery None) example_heap)
       = Some (VInt64 2)"
    by (elim conjE allE [of _ 1]) simp
  from T have k2:
    "returned_retryCount (kickback_after 2 2 (example_delivery None) example_heap)
       = Some (VInt64 3)"
    "returned_error (kickback_after 2 2 (example_delivery None) example_heap) = Returned None"
    by (elim conjE allE [of _ 2], simp)+
  from T have k3:
    "fst (kickback_after 2 3 (example_delivery None) example_heap) =
       Returned (empty_Publishing, Some (ErrorsNew ''too many retries''))"
    by simp
  from a b c k0 k1 k2 k3 show ?thesis by (simp only: simp_thms)
qed

section \<open>The uniqueness check\<close>

text \<open>
  The loop invariant: before index \<open>i\<close> the keys of \<open>queues\<close> are the names of the
  first \<open>i\<close> configurations, and these are distinct, so \<open>len(queues) = i\<close>.
\<close>

lemma AssertUniqueQueues_from_inv:
  assumes "i \<le> length confs"
      and "dom queues = QueueName ` set (take i confs)"
      and "distinct (map QueueName (take i confs))"
  shows "AssertUniqueQueues_from confs i queues =
           (if distinct (map QueueName confs) then ([], Returned ())
            else (log_confs confs @ [LogPanic ''queue names are not unique''],
                  Panicked ''queue names are not unique''))"
  using assms
proof (induction confs i queues rule: AssertUniqueQueues_from.induct)
  case (1 confs i queues)
  show ?case
  proof (cases "i < length confs")
    case False
    with "1.prems" have "take i confs = confs" by simp
    with "1.prems" False show ?thesis
      by (subst AssertUniqueQueues_from.simps) simp
  next
    case True
    let ?name = "QueueName (confs ! i)"
    let ?queues' = "queues(?name \<mapsto> False)"
    have tk: "take (Suc i) confs = take i confs @ [confs ! i]"
      using True by (rule take_Suc_conv_app_nth)
    have fin: "finite (dom queues)" using "1.prems"(2) by simp
    have "card (dom queues) = length (map QueueName (take i confs))"
      using "1.prems"(2,3) distinct_card [of "map QueueName (take i confs)"] by simp
    then have card_i: "card (dom queues) = i" using True by simp
    show ?thesis
    proof (cases "?name \<in> dom queues")
      case dup: True
      then have "dom ?queues' = dom queues" by auto
      then have cnt: "int (card (dom ?queues')) - 1 \<noteq> int i" using card_i by simp
      have "\<not> distinct (map QueueName (take (Suc i) confs))"
        using dup "1.prems"(2) by (simp add: tk)
      then have "\<not> distinct (map QueueName confs)"
        using distinct_take [of "map QueueName confs" "Suc i"] by (auto simp: take_map)
      with True cnt show ?thesis
        by (subst AssertUniqueQueues_from.simps) (simp add: Let_def)
    next
      case fresh: False
      then have "card (dom ?queues') = Suc i" using fin card_i by simp
      then have cnt: "\<not> int (card (dom ?queues')) - 1 \<noteq> int i" by simp
      have d': "dom ?queues' = QueueName ` set (take (Suc i) confs)"
        using "1.prems"(2) by (simp add: tk)
      have dist': "distinct (map QueueName (take (Suc i) confs))"
        using fresh "1.prems"(2,3) by (simp add: tk)
      have le: "Suc i \<le> length confs" using True by simp
      have rec: "AssertUniqueQueues_from confs (Suc i) ?queues' =
           (if distinct (map QueueName confs) then ([], Returned ())
            else (log_confs confs @ [LogPanic ''queue names are not unique''],
                  Panicked ''queue names are not unique''))"
        by (rule "1.IH" [OF True refl cnt le d' dist'])
      have "AssertUniqueQueues_from confs i queues =
              AssertUniqueQueues_from confs (Suc i) ?queues'"
        using True cnt by (subst AssertUniqueQueues_from.simps) (simp add: Let_def)
      with rec show ?thesis by (simp only:)
    qed
  qed
qed

text \<open>
  Claim C4. \<open>AssertUniqueQueues\<close> returns, having logged nothing, exactly when the
  queue names are pairwise distinct. Otherwise it panics with
  \<open>queue names are not unique\<close>, and before that it has logged the index and the
  queue name of every configuration, in order. The comparison of \<open>len(queues) - 1\<close>
  with the index is the test in \<open>AssertUniqueQueues_from\<close>.
\<close>

theorem AssertUniqueQueues_distinct:
  "AssertUniqueQueues confs =
     (if distinct (map QueueName confs) then ([], Returned ())
      else (map (\<lambda>j. LogErrorf ''%d = %s'' j (QueueName (confs ! j))) [0..<length confs]
              @ [LogPanic ''queue names are not unique''],
            Panicked ''queue names are not unique''))"
  unfolding AssertUniqueQueues_def log_confs_def [symmetric]
  by (rule AssertUniqueQueues_from_inv) simp_all

text \<open>Three configurations named a, b, a panic; the first two alone pass.\<close>

theorem AssertUniqueQueues_distinct_witness:
  "\<not> distinct (map QueueName example_confs) \<and>
   AssertUniqueQueues example_confs =
     ([LogErrorf ''%d = %s'' 0 ''a'', LogErrorf ''%d = %s'' 1 ''b'',
       LogErrorf ''%d = %s'' 2 ''a'', LogPanic ''queue names are not unique''],
      Panicked ''queue names are not unique'') \<and>
   distinct (map QueueName (take 2 example_confs)) \<and>
   AssertUniqueQueues (take 2 example_confs) = ([], Returned ())"
  using AssertUniqueQueues_distinct [of example_confs]
        AssertUniqueQueues_distinct [of "take 2 example_confs"]
  by (simp add: example_confs_def upt_rec)

section \<open>Headers are shared with the source\<close>






section \<open>Messages with a new body\<close>

text \<open>
  Claim C5. When the body serializes to \<open>rawBody\<close>, \<open>GetNextMessage\<close> returns no
  error and an envelope whose \<open>retryCount\<close> header is the \<open>int64\<close> 0, whatever the
  source held there; whose content type, content encoding, delivery mode and type are
  the source's; and whose body is \<open>rawBody\<close>. When the source had no headers the
  envelope's table is new and holds the \<open>retryCount\<close> entry only.
\<close>

theorem GetNextMessage_resets_retry_count:
  assumes "marshal body = Inr rawBody"
  shows "(case GetNextMessage marshal msg body h of
            ((pub, err), h') \<Rightarrow>
              err = None \<and>
              load_entry (Headers pub) RetryCountHeader h' = Some (VInt64 0) \<and>
              ContentType pub = ContentType msg \<and>
              ContentEncoding pub = ContentEncoding msg \<and>
              DeliveryMode pub = DeliveryMode msg \<and>
              Type pub = Type msg \<and>
              Body pub = rawBody \<and>
              (Headers msg = None \<longrightarrow>
                 Headers pub = Some (nxt h) \<and>
                 cells h' (nxt h) = [RetryCountHeader \<mapsto> VInt64 0]))"
  using assms
  by (cases "Headers msg")
     (simp_all add: GetNextMessage_def load_entry_def new_table_def store_entry_def Let_def
        empty_Publishing_def)

text \<open>
  On the delivery with retry count 3 the new envelope has count 0; on the delivery
  without headers the envelope refers to the new table 3.
\<close>

theorem GetNextMessage_resets_retry_count_witness:
  "example_marshal BodyNil = Inr [110, 117, 108, 108] \<and>
   load_entry (Headers (example_delivery (Some 1))) RetryCountHeader example_heap
     = Some (VInt64 3) \<and>
   GetNextMessage example_marshal (example_delivery (Some 1)) BodyNil example_heap =
     ((\<lparr>Headers = Some 1, ContentType = ''application/json'', ContentEncoding = ''utf-8'',
        DeliveryMode = 2, Priority = 0, CorrelationId = [], ReplyTo = [], Expiration = [],
        MessageId = [], Timestamp = 0, Type = ''job'', UserId = [], AppId = [],
        Body = [110, 117, 108, 108]\<rparr>, None),
      store_entry 1 RetryCountHeader (VInt64 0) example_heap) \<and>
   Headers (example_delivery None) = None \<and>
   (case GetNextMessage example_marshal (example_delivery None) BodyNil example_heap of
      ((pub, err), h') \<Rightarrow>
        err = None \<and>
        load_entry (Headers pub) RetryCountHeader h' = Some (VInt64 0) \<and>
        ContentType pub = ''application/json'' \<and>
        ContentEncoding pub = ''utf-8'' \<and>
        DeliveryMode pub = 2 \<and>
        Type pub = ''job'' \<and>
        Body pub = [110, 117, 108, 108] \<and>
        Headers pub = Some 3 \<and>
        cells h' 3 = [RetryCountHeader \<mapsto> VInt64 0])"
proof -
  have m: "example_marshal BodyNil = Inr [110, 117, 108, 108]" by simp
  have c: "load_entry (Headers (example_delivery (Some 1))) RetryCountHeader example_heap
     = Some (VInt64 3)"
    by (simp add: load_entry_def example_delivery_def example_heap_def)
  have g: "GetNextMessage example_marshal (example_delivery (Some 1)) BodyNil example_heap =
     ((\<lparr>Headers = Some 1, ContentType = ''application/json'', ContentEncoding = ''utf-8'',
        DeliveryMode = 2, Priority = 0, CorrelationId = [], ReplyTo = [], Expiration = [],
        MessageId = [], Timestamp = 0, Type = ''job'', UserId = [], AppId = [],
        Body = [110, 117, 108, 108]\<rparr>, None),
      store_entry 1 RetryCountHeader (VInt64 0) example_heap)"
    by (simp add: GetNextMessage_def example_delivery_def empty_Publishing_def Let_def)
  have n: "Headers (example_delivery None) = None" by (simp add: example_delivery_def)
  have x: "nxt example_heap = 3" by (simp add: example_heap_def)
  have f: "ContentType (example_delivery None) = ''application/json''"
    "ContentEncoding (example_delivery None) = ''utf-8''"
    "DeliveryMode (example_delivery None) = 2"
    "Type (example_delivery None) = ''job''"
    by (simp_all add: example_delivery_def)
  from GetNextMessage_resets_retry_count
         [where marshal = example_marshal and body = BodyNil
            and msg = "example_delivery None" and h = example_heap,
          OF m, unfolded x f] n m c g
  show ?thesis by (simp split: prod.splits)
qed

text \<open>
  Claim C6. When the body serializes to \<open>rawBody\<close>, \<open>CreateMessage\<close> returns no
  error and the zero publishing with two fields set: the body is \<open>rawBody\<close>, and the
  headers are a new table that holds the entry \<open>retryCount\<close>, the \<open>int64\<close> 0, and
  nothing else.
\<close>

theorem CreateMessage_fresh_envelope:
  assumes "marshal body = Inr rawBody"
  shows "fst (CreateMessage marshal body h) =
           (empty_Publishing\<lparr>Headers := Some (nxt h), Body := rawBody\<rparr>, None) \<and>
         cells (snd (CreateMessage marshal body h)) (nxt h) = [RetryCountHeader \<mapsto> VInt64 0]"
  using assms
  by (simp add: CreateMessage_def new_table_def store_entry_def)

theorem CreateMessage_fresh_envelope_witness:
  "example_marshal BodyNil = Inr [110, 117, 108, 108] \<and>
   fst (CreateMessage example_marshal BodyNil example_heap) =
     (\<lparr>Headers = Some 3, ContentType = [], ContentEncoding = [], DeliveryMode = 0,
       Priority = 0, CorrelationId = [], ReplyTo = [], Expiration = [], MessageId = [],
       Timestamp = 0, Type = [], UserId = [], AppId = [], Body = [110, 117, 108, 108]\<rparr>,
      None) \<and>
   cells (snd (CreateMessage example_marshal BodyNil example_heap)) 3
     = [RetryCountHeader \<mapsto> VInt64 0]"
proof -
  have m: "example_marshal BodyNil = Inr [110, 117, 108, 108]" by simp
  have x: "nxt example_heap = 3" by (simp add: example_heap_def)
  from CreateMessage_fresh_envelope
         [where marshal = example_marshal and body = BodyNil and h = example_heap,
          OF m, unfolded x] m
  show ?thesis by (simp add: empty_Publishing_def)
qed

text \<open>
  Claim C7. When \<open>json.Marshal\<close> fails, \<open>CreateMessage\<close> and \<open>GetNextMessage\<close>
  return the zero publishing together with that error, and write nothing. When it
  succeeds they return no error. So each of them returns an error exactly when the
  body cannot be serialized.
\<close>

theorem serialization_error_returned:
  "(case marshal body of
      Inl err \<Rightarrow>
        CreateMessage marshal body h = ((empty_Publishing, Some err), h) \<and>
        GetNextMessage marshal msg body h = ((empty_Publishing, Some err), h)
    | Inr rawBody \<Rightarrow>
        snd (fst (CreateMessage marshal body h)) = None \<and>
        snd (fst (GetNextMessage marshal msg body h)) = None) \<and>
   ((\<exists>err. marshal body = Inl err) = (snd (fst (CreateMessage marshal body h)) \<noteq> None)) \<and>
   ((\<exists>err. marshal body = Inl err) = (snd (fst (GetNextMessage marshal msg body h)) \<noteq> None))"
  by (cases "marshal body"; cases "Headers msg")
     (simp_all add: CreateMessage_def GetNextMessage_def new_table_def Let_def)

theorem serialization_error_returned_witness:
  "CreateMessage example_marshal BodyChan example_heap =
     ((empty_Publishing, Some (MarshalError ''json: unsupported type: chan int'')),
      example_heap) \<and>
   GetNextMessage example_marshal (example_delivery (Some 1)) BodyChan example_heap =
     ((empty_Publishing, Some (MarshalError ''json: unsupported type: chan int'')),
      example_heap) \<and>
   snd (fst (CreateMessage example_marshal BodyNil example_heap)) = None \<and>
   snd (fst (GetNextMessage example_marshal (example_delivery (Some 1)) BodyNil example_heap))
     = None"
  using serialization_error_returned
          [of example_marshal BodyChan example_heap "example_delivery (Some 1)"]
        serialization_error_returned
          [of example_marshal BodyNil example_heap "example_delivery (Some 1)"]
  by simp

section \<open>Binding one service\<close>

text \<open>
  Claim C8, as stated, on a service whose \<open>Channel()\<close> fails: with the empty
  exchange name the error of \<open>Channel()\<close> is sent and logged, so an error is reported
  for it; with a non-empty exchange name no bind is made.
\<close>

theorem bindTask_channel_error_counterexample:
  "Name (Exchange (Config
     (example_service (Inl (BrokerError ''channel/connection is not open'')) []))) = [] \<and>
   log_errors
     [fst (bindTask (example_service (Inl (BrokerError ''channel/connection is not open'')) []))]
     = [LogDebug (BrokerError ''channel/connection is not open'')
          ''failed to create a queue or exchange''] \<and>
   Name (Exchange (Config
     (example_service (Inl (BrokerError ''channel/connection is not open'')) ''x''))) \<noteq> [] \<and>
   snd (bindTask (example_service (Inl (BrokerError ''channel/connection is not open'')) ''x''))
     = []"
  by (simp add: bindTask_def example_service_def)

text \<open>
  Claim C8, amended. When \<open>Channel()\<close> fails, its error is what the task reports, and
  the task makes no call on a channel. When \<open>Channel()\<close> returns a channel: with the
  empty exchange name the task makes no bind, reports nil (nothing is logged) and
  closes the channel; with a non-empty exchange name it calls \<open>QueueBind\<close> once, with
  the queue name as queue and as routing key, the exchange name, \<open>noWait = false\<close> and
  nil arguments, reports what \<open>QueueBind\<close> returned, and closes the channel.
\<close>

theorem bindTask_binds_named_exchange:
  "(Channel q = Inl err \<longrightarrow> bindTask q = (Some err, [])) \<and>
   (Channel q = Inr ch \<longrightarrow>
      (Name (Exchange (Config q)) = [] \<longrightarrow>
         bindTask q = (None, [CallClose]) \<and> log_errors [fst (bindTask q)] = []) \<and>
      (Name (Exchange (Config q)) \<noteq> [] \<longrightarrow>
         bindTask q =
           (QueueBind ch (QueueName (Config q)) (QueueName (Config q))
              (Name (Exchange (Config q))) False None,
            [CallQueueBind (QueueName (Config q)) (QueueName (Config q))
               (Name (Exchange (Config q))) False None,
             CallClose])))"
  by (simp add: bindTask_def Let_def)

theorem bindTask_binds_named_exchange_witness:
  "Channel (example_service (Inr example_channel) []) = Inr example_channel \<and>
   Name (Exchange (Config (example_service (Inr example_channel) []))) = [] \<and>
   bindTask (example_service (Inr example_channel) []) = (None, [CallClose]) \<and>
   Channel (example_service (Inr example_channel) ''x'') = Inr example_channel \<and>
   Name (Exchange (Config (example_service (Inr example_channel) ''x''))) \<noteq> [] \<and>
   bindTask (example_service (Inr example_channel) ''x'') =
     (None, [CallQueueBind ''jobs'' ''jobs'' ''x'' False None, CallClose]) \<and>
   Channel (example_service (Inl (BrokerError ''closed'')) ''x'') = Inl (BrokerError ''closed'') \<and>
   bindTask (example_service (Inl (BrokerError ''closed'')) ''x'')
     = (Some (BrokerError ''closed''), [])"
  using bindTask_binds_named_exchange
          [of "example_service (Inr example_channel) []" "BrokerError ''closed''" example_channel]
        bindTask_binds_named_exchange
          [of "example_service (Inr example_channel) ''x''" "BrokerError ''closed''"
              example_channel]
        bindTask_binds_named_exchange
          [of "example_service (Inl (BrokerError ''closed'')) ''x''" "BrokerError ''closed''"
              example_channel]
  by (simp add: example_service_def example_channel_def)

end
